theory Spec2Isabelle
  imports Complex_Main "HOL-Library.Word" "HOL-Library.AList"
begin

section \<open>Hidden-station scenario scripts (ns-3.25 scratch directory)\<close>

text \<open>
  The repository consists of scenario scripts for the ns-3 simulator:
  \<^verbatim>\<open>simple-ht-hidden-stations.cc\<close> (two variants in one file; the first one is modelled
  here under the suffix \<open>_v1\<close>), \<^verbatim>\<open>hiddenstations2.cc\<close> (suffix \<open>_hs2\<close>) and
  \<^verbatim>\<open>hiddenstations3.cc\<close> (suffix \<open>_hs3\<close>). \<^verbatim>\<open>hiddenstations.cc\<close> reads the undeclared
  variable \<^verbatim>\<open>serverApp\<close> in its last statements and is not a program.

  Every script is one straight-line \<^verbatim>\<open>main\<close>. Each local variable of \<^verbatim>\<open>main\<close> becomes a
  constant (a function of the command-line parameters where it depends on them), defined
  by the expression that the script assigns to it. The ns-3 classes that the scripts call
  are a library outside the repository; they are modelled by their interface contract only
  (a container is a list, \<^verbatim>\<open>Create (n)\<close> appends \<open>n\<close> elements, \<^verbatim>\<open>Get (i)\<close> requires
  \<open>i < size\<close>, a helper installs an application of its own type on a node).
  The simulation run itself is opaque: what it leaves behind (the packet counter of every
  application, the receive events that fire the trace callback) is a parameter.
\<close>

subsection \<open>Machine types and command-line parameters\<close>

type_synonym u32 = "32 word"
type_synonym u64 = "64 word"

text \<open>
  \<^verbatim>\<open>uint32_t payloadSize = 1472; uint64_t simulationTime = 10; uint32_t nMpdus = 1;
  bool enableRts = 0; uint32_t nPackets = 0;\<close> followed by \<^verbatim>\<open>cmd.Parse\<close>, which may
  overwrite each of them (\<open>nPackets\<close> exists in hiddenstations2/3 only).
\<close>

record config =
  payloadSize :: u32
  simulationTime :: u64
  nMpdus :: u32
  enableRts :: bool
  nPackets :: u32

definition defaults :: config where
  "defaults = \<lparr>payloadSize = 1472, simulationTime = 10, nMpdus = 1,
                enableRts = False, nPackets = 0\<rparr>"

subsection \<open>Link configuration\<close>

text \<open>
  \<^verbatim>\<open>if (!enableRts) SetDefault ("...::RtsCtsThreshold", StringValue ("999999"));
  else SetDefault ("...::RtsCtsThreshold", StringValue ("0"));\<close>
\<close>

definition RtsCtsThreshold :: "config \<Rightarrow> string" where
  "RtsCtsThreshold cfg = (if \<not> enableRts cfg then ''999999'' else ''0'')"

text \<open>
  \<^verbatim>\<open>maxAmpduSize = nMpdus * (payloadSize + 200);\<close> All three variables are
  \<^verbatim>\<open>uint32_t\<close>, so the sum and the product are taken modulo \<open>2^32\<close>.
\<close>

definition maxAmpduSize :: "u32 \<Rightarrow> u32 \<Rightarrow> u32" where
  "maxAmpduSize nMpdus' payloadSize' = nMpdus' * (payloadSize' + 200)"

subsection \<open>Throughput\<close>

text \<open>
  A C++ \<^verbatim>\<open>double\<close>, as far as the scripts need it: a finite value, \<open>+\<infinity>\<close> or NaN.
  Rounding to 53 bits is not modelled: \<open>Finite r\<close> stands for the double nearest to \<open>r\<close>.
  Division follows IEEE 754 for a non-negative numerator and denominator.
\<close>

datatype double = Finite real | PlusInfinity | NaN

definition double_div :: "real \<Rightarrow> real \<Rightarrow> double" where
  "double_div x y =
     (if y = 0 then (if x = 0 then NaN else PlusInfinity) else Finite (x / y))"

text \<open>
  \<^verbatim>\<open>double throughput1 = totalPacketsThrough1 * payloadSize * 8 / (simulationTime * 1000000.0);\<close>
  with \<^verbatim>\<open>uint32_t totalPacketsThrough1\<close>, \<^verbatim>\<open>uint32_t payloadSize\<close> and
  \<^verbatim>\<open>uint64_t simulationTime\<close>: the numerator is an \<^verbatim>\<open>unsigned int\<close> product (modulo
  \<open>2^32\<close>), converted to \<^verbatim>\<open>double\<close> for the division; the denominator is a \<^verbatim>\<open>double\<close>.
\<close>

definition throughput_bits :: "u32 \<Rightarrow> u32 \<Rightarrow> u32" where
  "throughput_bits totalPacketsThrough payloadSize' = totalPacketsThrough * payloadSize' * 8"

definition throughput :: "u32 \<Rightarrow> u32 \<Rightarrow> u64 \<Rightarrow> double" where
  "throughput totalPacketsThrough payloadSize' simulationTime' =
     double_div (real (unat (throughput_bits totalPacketsThrough payloadSize')))
                (real (unat simulationTime') * 1000000)"

subsection \<open>Nodes, devices, positions and addresses\<close>

text \<open>
  A container (\<^verbatim>\<open>NodeContainer\<close>, \<^verbatim>\<open>NetDeviceContainer\<close>, \<^verbatim>\<open>Ipv4InterfaceContainer\<close>,
  \<^verbatim>\<open>ApplicationContainer\<close>) wraps a \<^verbatim>\<open>std::vector\<close>; \<^verbatim>\<open>Get (i)\<close> and \<^verbatim>\<open>GetAddress (i)\<close>
  index it without a bounds check. The total embedding returns \<open>None\<close> where the index is
  not below the size (the C++ has undefined behaviour there).
\<close>

definition Get :: "'a list \<Rightarrow> nat \<Rightarrow> 'a option" where
  "Get c i = (if i < length c then Some (c ! i) else None)"

text \<open>
  Nodes are numbered in the order of creation (the global node list):
  \<^verbatim>\<open>wifiStaNodes.Create (4); wifiApNode.Create (1);\<close> and, in the first variant of
  simple-ht-hidden-stations.cc only, \<^verbatim>\<open>nodes.Create (4);\<close>.
\<close>

definition NodeContainer_Create :: "nat \<Rightarrow> nat \<Rightarrow> nat list" where
  "NodeContainer_Create first n = [first ..< first + n]"

definition wifiStaNodes :: "nat list" where
  "wifiStaNodes = NodeContainer_Create 0 4"

definition wifiApNode :: "nat list" where
  "wifiApNode = NodeContainer_Create (length wifiStaNodes) 1"

definition nodes_v1 :: "nat list" where
  "nodes_v1 = NodeContainer_Create (length wifiStaNodes + length wifiApNode) 4"

text \<open>
  \<^verbatim>\<open>staDevices = wifi.Install (phy, mac, wifiStaNodes); apDevice = wifi.Install (phy, mac,
  wifiApNode);\<close> one device per node, named by its node here.
\<close>

definition WifiHelper_Install :: "nat list \<Rightarrow> nat list" where
  "WifiHelper_Install c = c"

definition staDevices :: "nat list" where
  "staDevices = WifiHelper_Install wifiStaNodes"

definition apDevice :: "nat list" where
  "apDevice = WifiHelper_Install wifiApNode"

text \<open>
  \<^verbatim>\<open>positionAlloc->Add (Vector (5.0, 5.0, 0.0)); ... (5.0, 10.0, 0.0) ... (0.0, 5.0, 0.0)
  ... (5.0, 0.0, 0.0) ... (10.0, 5.0, 0.0)\<close>, the same five positions in every script, and
  \<^verbatim>\<open>Config::SetDefault ("ns3::RangePropagationLossModel::MaxRange", DoubleValue (5))\<close>.
\<close>

type_synonym Vector = "real \<times> real \<times> real"

definition positionAlloc :: "Vector list" where
  "positionAlloc = [(5, 5, 0), (5, 10, 0), (0, 5, 0), (5, 0, 0), (10, 5, 0)]"

definition MaxRange :: real where
  "MaxRange = 5"

text \<open>
  \<^verbatim>\<open>mobility.Install (wifiApNode); mobility.Install (wifiStaNodes);\<close> every installed node
  takes the next position of the list allocator, which starts again at the first position
  after the last one.
\<close>

definition MobilityHelper_Install :: "Vector list \<Rightarrow> nat \<Rightarrow> nat list \<Rightarrow> (nat \<times> Vector) list" where
  "MobilityHelper_Install alloc used c =
     zip c (map (\<lambda>k. alloc ! (k mod length alloc)) [used ..< used + length c])"

definition mobility :: "(nat \<times> Vector) list" where
  "mobility = MobilityHelper_Install positionAlloc 0 wifiApNode
            @ MobilityHelper_Install positionAlloc (length wifiApNode) wifiStaNodes"

definition GetPosition :: "nat \<Rightarrow> Vector option" where
  "GetPosition n = map_of mobility n"

text \<open>The Euclidean distance of two positions (ns-3's \<^verbatim>\<open>CalculateDistance\<close>).\<close>

definition CalculateDistance :: "Vector \<Rightarrow> Vector \<Rightarrow> real" where
  "CalculateDistance a b =
     (case a of (ax, ay, az) \<Rightarrow> case b of (bx, by, bz) \<Rightarrow>
        sqrt ((bx - ax) * (bx - ax) + (by - ay) * (by - ay) + (bz - az) * (bz - az)))"

definition GetDistanceFrom :: "nat \<Rightarrow> nat \<Rightarrow> real option" where
  "GetDistanceFrom m n =
     (case GetPosition m of None \<Rightarrow> None
      | Some a \<Rightarrow> (case GetPosition n of None \<Rightarrow> None
                   | Some b \<Rightarrow> Some (CalculateDistance a b)))"

text \<open>
  The range propagation loss model delivers a signal exactly when the distance is at most
  \<open>MaxRange\<close>. Two stations are hidden from each other when they are out of range.
\<close>

definition hidden :: "nat \<Rightarrow> nat \<Rightarrow> bool" where
  "hidden m n = (case GetDistanceFrom m n of None \<Rightarrow> False | Some d \<Rightarrow> MaxRange < d)"

definition hidden_pairs :: "(nat \<times> nat) list" where
  "hidden_pairs =
     filter (\<lambda>p. fst p < snd p \<and> hidden (fst p) (snd p)) (List.product wifiStaNodes wifiStaNodes)"

text \<open>
  \<^verbatim>\<open>address.SetBase ("192.168.1.0", "255.255.255.0"); StaInterface = address.Assign
  (staDevices); ApInterface = address.Assign (apDevice);\<close> the helper hands out the hosts
  of the subnet in turn, one per device, starting at host 1.
\<close>

type_synonym Ipv4Address = "nat \<times> nat \<times> nat \<times> nat"

definition Ipv4AddressHelper_Assign :: "nat \<Rightarrow> nat list \<Rightarrow> Ipv4Address list" where
  "Ipv4AddressHelper_Assign host c = map (\<lambda>k. (192, 168, 1, host + k)) [0 ..< length c]"

definition StaInterface :: "Ipv4Address list" where
  "StaInterface = Ipv4AddressHelper_Assign 1 staDevices"

definition ApInterface :: "Ipv4Address list" where
  "ApInterface = Ipv4AddressHelper_Assign (1 + length staDevices) apDevice"

subsection \<open>Applications and their helpers\<close>

text \<open>
  The four application classes the scripts install. An application helper is an object
  factory: a type and the attributes set so far. \<^verbatim>\<open>Install\<close> creates one application of
  the helper's type with the helper's attributes and adds it to the node; the application
  object exists even where the node handle is not valid (\<open>None\<close>). \<open>app_id\<close> is the identity
  of the object, by which the run attributes packets to it.
\<close>

datatype TypeId = UdpServer | UdpEchoServer | UdpClient | UdpEchoClient

datatype AttributeValue =
    UintegerValue nat
  | TimeValue real
  | AddressValue "Ipv4Address option"

record helper =
  factory :: TypeId
  attributes :: "(string \<times> AttributeValue) list"

record application =
  app_id :: nat
  app_type :: TypeId
  app_node :: "nat option"
  app_attributes :: "(string \<times> AttributeValue) list"
  StartTime :: real
  StopTime :: real

definition UdpServerHelper :: "nat \<Rightarrow> helper" where
  "UdpServerHelper port = \<lparr>factory = UdpServer, attributes = [(''Port'', UintegerValue port)]\<rparr>"

definition UdpEchoServerHelper :: "nat \<Rightarrow> helper" where
  "UdpEchoServerHelper port =
     \<lparr>factory = UdpEchoServer, attributes = [(''Port'', UintegerValue port)]\<rparr>"

definition UdpClientHelper :: "Ipv4Address option \<Rightarrow> nat \<Rightarrow> helper" where
  "UdpClientHelper ip port =
     \<lparr>factory = UdpClient,
      attributes = [(''RemoteAddress'', AddressValue ip), (''RemotePort'', UintegerValue port)]\<rparr>"

definition UdpEchoClientHelper :: "Ipv4Address option \<Rightarrow> nat \<Rightarrow> helper" where
  "UdpEchoClientHelper ip port =
     \<lparr>factory = UdpEchoClient,
      attributes = [(''RemoteAddress'', AddressValue ip), (''RemotePort'', UintegerValue port)]\<rparr>"

definition SetAttribute :: "string \<Rightarrow> AttributeValue \<Rightarrow> helper \<Rightarrow> helper" where
  "SetAttribute name v h = h\<lparr>attributes := AList.update name v (attributes h)\<rparr>"

text \<open>\<^verbatim>\<open>helper.Install (Ptr<Node>)\<close>: a container of one application.\<close>

definition Install :: "helper \<Rightarrow> nat \<Rightarrow> nat option \<Rightarrow> application list" where
  "Install h oid n =
     [\<lparr>app_id = oid, app_type = factory h, app_node = n, app_attributes = attributes h,
       StartTime = 0, StopTime = 0\<rparr>]"

text \<open>\<^verbatim>\<open>helper.Install (NodeContainer)\<close>: one application per node of the container.\<close>

definition InstallAll :: "helper \<Rightarrow> nat \<Rightarrow> nat list \<Rightarrow> application list" where
  "InstallAll h oid c = concat (map (\<lambda>k. Install h (oid + k) (Some (c ! k))) [0 ..< length c])"

text \<open>\<^verbatim>\<open>apps.Start (t); apps.Stop (t);\<close> set the time on every application of the container.\<close>

definition Start :: "real \<Rightarrow> application list \<Rightarrow> application list" where
  "Start t c = map (\<lambda>a. a\<lparr>StartTime := t\<rparr>) c"

definition Stop :: "real \<Rightarrow> application list \<Rightarrow> application list" where
  "Stop t c = map (\<lambda>a. a\<lparr>StopTime := t\<rparr>) c"

text \<open>
  \<^verbatim>\<open>Seconds (simulationTime + 1)\<close>: the sum is a \<^verbatim>\<open>uint64_t\<close> (modulo \<open>2^64\<close>), converted
  to the \<^verbatim>\<open>double\<close> argument of \<^verbatim>\<open>Seconds\<close>. Times are in seconds.
\<close>

definition Seconds :: "u64 \<Rightarrow> real" where
  "Seconds t = real (unat t)"

text \<open>
  \<^verbatim>\<open>DynamicCast<UdpServer> (p)\<close> is the null pointer unless the object is a
  \<^verbatim>\<open>UdpServer\<close>; \<^verbatim>\<open>->GetReceived ()\<close> on the null pointer is a null dereference (\<open>None\<close>),
  otherwise it is the \<^verbatim>\<open>uint32_t\<close> packet counter that the run left in the object.
\<close>

definition DynamicCast_UdpServer :: "application option \<Rightarrow> application option" where
  "DynamicCast_UdpServer p =
     (case p of None \<Rightarrow> None
      | Some a \<Rightarrow> (if app_type a = UdpServer then Some a else None))"

definition GetReceived :: "(nat \<Rightarrow> u32) \<Rightarrow> application option \<Rightarrow> u32 option" where
  "GetReceived received p = (case p of None \<Rightarrow> None | Some a \<Rightarrow> Some (received (app_id a)))"

subsection \<open>Violated preconditions and output\<close>

text \<open>
  The scripts never branch on a lookup, so the model of \<^verbatim>\<open>main\<close> lists, in program order,
  every precondition of a library call that the script violates: a container index that
  is not below the size, or a member call through a null pointer. A real execution has
  undefined behaviour from the first entry on.
\<close>

datatype fault =
    IndexOutOfRange string nat nat
  | NullDereference string

definition index_check :: "string \<Rightarrow> 'a list \<Rightarrow> nat \<Rightarrow> fault list" where
  "index_check name c i = (if i < length c then [] else [IndexOutOfRange name i (length c)])"

definition null_check :: "string \<Rightarrow> 'a option \<Rightarrow> fault list" where
  "null_check name p = (case p of None \<Rightarrow> [NullDereference name] | Some v \<Rightarrow> [])"

text \<open>
  A line written to \<^verbatim>\<open>std::cout\<close> is the sequence of values inserted before the newline:
  \<^verbatim>\<open>std::cout << "ServerApp1 Throughput: " << throughput1 << " Mbit/s" << '\n';\<close> is
  \<open>[Str ''ServerApp1 Throughput: '', Dbl throughput1, Str '' Mbit/s'']\<close>.
\<close>

datatype item = Str string | Dbl double | Num nat | Addr Ipv4Address

type_synonym line = "item list"

text \<open>
  The three statements that report one server application: read the counter, compute the
  throughput, print the line. Where the read dereferences null there is no value and no
  line.
\<close>

definition report :: "string \<Rightarrow> config \<Rightarrow> u32 option \<Rightarrow> line list" where
  "report label cfg totalPacketsThrough =
     (case totalPacketsThrough of None \<Rightarrow> []
      | Some n \<Rightarrow> [[Str label, Dbl (throughput n (payloadSize cfg) (simulationTime cfg)),
                    Str '' Mbit/s'']])"

text \<open>
  The code determines what a run prints only as long as no precondition is violated.
  Where \<^verbatim>\<open>main\<close> violates one, the model attributes no output to the run: the lines are
  dropped, and nothing is said about what such a run prints.
\<close>

definition printed :: "fault list \<Rightarrow> line list \<Rightarrow> line list" where
  "printed faults ls = (if faults = [] then ls else [])"

text \<open>
  What a script hands over, and what it prints in a run without a violated precondition:
  the result of its \<^verbatim>\<open>main\<close>.
\<close>

record outcome =
  violations :: "fault list"
  BE_MaxAmpduSize :: u32
  applications :: "application list"
  SimulatorStop :: real
  cout :: "line list"

section \<open>simple-ht-hidden-stations.cc, first variant\<close>

text \<open>
  \<^verbatim>\<open>UdpServerHelper myServer (9); ApplicationContainer serverApp = myServer.Install
  (wifiApNode); serverApp.Start (Seconds (0.0)); serverApp.Stop (Seconds (simulationTime + 1));\<close>
\<close>

definition myServer_v1 :: helper where
  "myServer_v1 = UdpServerHelper 9"

definition serverApp_v1 :: "config \<Rightarrow> application list" where
  "serverApp_v1 cfg =
     Stop (Seconds (simulationTime cfg + 1)) (Start 0 (InstallAll myServer_v1 0 wifiApNode))"

text \<open>
  \<^verbatim>\<open>UdpClientHelper myClient (ApInterface.GetAddress (1), 9);\<close> with the attributes
  \<^verbatim>\<open>MaxPackets = 4294967295u\<close>, \<^verbatim>\<open>Interval = Time ("0.00002")\<close>, \<^verbatim>\<open>PacketSize =
  payloadSize\<close>; \<^verbatim>\<open>clientApp1 = myClient.Install (wifiStaNodes); clientApp1.Start (Seconds
  (1.0)); clientApp1.Stop (Seconds (simulationTime + 1));\<close>
\<close>

definition myClient_v1 :: "config \<Rightarrow> helper" where
  "myClient_v1 cfg =
     SetAttribute ''PacketSize'' (UintegerValue (unat (payloadSize cfg)))
    (SetAttribute ''Interval'' (TimeValue (2 / 100000))
    (SetAttribute ''MaxPackets'' (UintegerValue 4294967295)
    (UdpClientHelper (Get ApInterface 1) 9)))"

definition clientApp1_v1 :: "config \<Rightarrow> application list" where
  "clientApp1_v1 cfg =
     Stop (Seconds (simulationTime cfg + 1)) (Start 1 (InstallAll (myClient_v1 cfg) 1 wifiStaNodes))"

text \<open>
  \<^verbatim>\<open>UdpEchoServerHelper echoServer (9); ApplicationContainer serverApps1 =
  echoServer.Install (wifiApNode.Get (1)); serverApps1.Start (Seconds (1.0));
  serverApps1.Stop (Seconds (10.0));\<close> and the same for \<^verbatim>\<open>serverApps2\<close>, \<^verbatim>\<open>serverApps3\<close>,
  \<^verbatim>\<open>serverApps4\<close> with \<^verbatim>\<open>Get (2)\<close>, \<^verbatim>\<open>Get (3)\<close>, \<^verbatim>\<open>Get (4)\<close>.
\<close>

definition echoServer_v1 :: helper where
  "echoServer_v1 = UdpEchoServerHelper 9"

definition serverApps1_v1 :: "application list" where
  "serverApps1_v1 = Stop 10 (Start 1 (Install echoServer_v1 5 (Get wifiApNode 1)))"

definition serverApps2_v1 :: "application list" where
  "serverApps2_v1 = Stop 10 (Start 1 (Install echoServer_v1 6 (Get wifiApNode 2)))"

definition serverApps3_v1 :: "application list" where
  "serverApps3_v1 = Stop 10 (Start 1 (Install echoServer_v1 7 (Get wifiApNode 3)))"

definition serverApps4_v1 :: "application list" where
  "serverApps4_v1 = Stop 10 (Start 1 (Install echoServer_v1 8 (Get wifiApNode 4)))"

text \<open>
  \<^verbatim>\<open>UdpEchoClientHelper echoClient1 (StaInterface.GetAddress (1), 9);\<close> with
  \<^verbatim>\<open>MaxPackets = 1\<close>, \<^verbatim>\<open>Interval = Seconds (0.1)\<close>, \<^verbatim>\<open>PacketSize = 1024\<close>; the same for
  \<^verbatim>\<open>echoClient2\<close>, \<^verbatim>\<open>echoClient3\<close>, \<^verbatim>\<open>echoClient4\<close> with \<^verbatim>\<open>GetAddress (2)\<close>,
  \<^verbatim>\<open>(3)\<close>, \<^verbatim>\<open>(4)\<close>.
\<close>

definition echoClient_v1 :: "nat \<Rightarrow> helper" where
  "echoClient_v1 i =
     SetAttribute ''PacketSize'' (UintegerValue 1024)
    (SetAttribute ''Interval'' (TimeValue (1 / 10))
    (SetAttribute ''MaxPackets'' (UintegerValue 1)
    (UdpEchoClientHelper (Get StaInterface i) 9)))"

text \<open>
  \<^verbatim>\<open>ApplicationContainer clientApps1 = echoClient1.Install (wifiStaNodes.Get (1));
  clientApps1.Start (Seconds (1.0)); clientApps1.Stop (Seconds (10.0));\<close> and the same for
  \<^verbatim>\<open>clientApps2\<close>, \<^verbatim>\<open>clientApps3\<close>, \<^verbatim>\<open>clientApps4\<close> with \<^verbatim>\<open>Get (2)\<close>, \<^verbatim>\<open>(3)\<close>,
  \<^verbatim>\<open>(4)\<close>.
\<close>

definition clientApps1_v1 :: "application list" where
  "clientApps1_v1 = Stop 10 (Start 1 (Install (echoClient_v1 1) 9 (Get wifiStaNodes 1)))"

definition clientApps2_v1 :: "application list" where
  "clientApps2_v1 = Stop 10 (Start 1 (Install (echoClient_v1 2) 10 (Get wifiStaNodes 2)))"

definition clientApps3_v1 :: "application list" where
  "clientApps3_v1 = Stop 10 (Start 1 (Install (echoClient_v1 3) 11 (Get wifiStaNodes 3)))"

definition clientApps4_v1 :: "application list" where
  "clientApps4_v1 = Stop 10 (Start 1 (Install (echoClient_v1 4) 12 (Get wifiStaNodes 4)))"

text \<open>
  \<^verbatim>\<open>uint32_t totalPacketsThrough1 = DynamicCast<UdpServer> (serverApps1.Get (0))->GetReceived
  ();\<close> and the same for \<^verbatim>\<open>serverApps2\<close>, \<^verbatim>\<open>serverApps3\<close>, \<^verbatim>\<open>serverApps4\<close>.
\<close>

definition totalPacketsThrough1_v1 :: "(nat \<Rightarrow> u32) \<Rightarrow> u32 option" where
  "totalPacketsThrough1_v1 received =
     GetReceived received (DynamicCast_UdpServer (Get serverApps1_v1 0))"

definition totalPacketsThrough2_v1 :: "(nat \<Rightarrow> u32) \<Rightarrow> u32 option" where
  "totalPacketsThrough2_v1 received =
     GetReceived received (DynamicCast_UdpServer (Get serverApps2_v1 0))"

definition totalPacketsThrough3_v1 :: "(nat \<Rightarrow> u32) \<Rightarrow> u32 option" where
  "totalPacketsThrough3_v1 received =
     GetReceived received (DynamicCast_UdpServer (Get serverApps3_v1 0))"

definition totalPacketsThrough4_v1 :: "(nat \<Rightarrow> u32) \<Rightarrow> u32 option" where
  "totalPacketsThrough4_v1 received =
     GetReceived received (DynamicCast_UdpServer (Get serverApps4_v1 0))"

text \<open>
  The library preconditions of \<^verbatim>\<open>main\<close>, statement by statement: the address lookup of
  \<^verbatim>\<open>myClient\<close>, the four \<^verbatim>\<open>wifiApNode.Get\<close>, the four \<^verbatim>\<open>StaInterface.GetAddress\<close>, the
  four \<^verbatim>\<open>wifiStaNodes.Get\<close>, the three device lookups of \<^verbatim>\<open>EnablePcap\<close>, and the four
  counter reads after the run.
\<close>

definition violations_v1 :: "(nat \<Rightarrow> u32) \<Rightarrow> fault list" where
  "violations_v1 received =
     index_check ''ApInterface'' ApInterface 1
   @ index_check ''wifiApNode'' wifiApNode 1
   @ index_check ''wifiApNode'' wifiApNode 2
   @ index_check ''wifiApNode'' wifiApNode 3
   @ index_check ''wifiApNode'' wifiApNode 4
   @ index_check ''StaInterface'' StaInterface 1
   @ index_check ''StaInterface'' StaInterface 2
   @ index_check ''StaInterface'' StaInterface 3
   @ index_check ''StaInterface'' StaInterface 4
   @ index_check ''wifiStaNodes'' wifiStaNodes 1
   @ index_check ''wifiStaNodes'' wifiStaNodes 2
   @ index_check ''wifiStaNodes'' wifiStaNodes 3
   @ index_check ''wifiStaNodes'' wifiStaNodes 4
   @ index_check ''apDevice'' apDevice 0
   @ index_check ''staDevices'' staDevices 0
   @ index_check ''staDevices'' staDevices 1
   @ index_check ''serverApps1'' serverApps1_v1 0
   @ null_check ''serverApps1'' (totalPacketsThrough1_v1 received)
   @ index_check ''serverApps2'' serverApps2_v1 0
   @ null_check ''serverApps2'' (totalPacketsThrough2_v1 received)
   @ index_check ''serverApps3'' serverApps3_v1 0
   @ null_check ''serverApps3'' (totalPacketsThrough3_v1 received)
   @ index_check ''serverApps4'' serverApps4_v1 0
   @ null_check ''serverApps4'' (totalPacketsThrough4_v1 received)"

text \<open>
  The four reports after the run, as a function of what the four reads give:
  \<^verbatim>\<open>std::cout << "ServerApp1 Throughput: " << throughput1 << " Mbit/s" << '\n';\<close> then
  \<^verbatim>\<open>"ServerApp2 Throughput: "\<close>, \<^verbatim>\<open>"ServerApp3 Throughput: "\<close>, \<^verbatim>\<open>"ServerApp4
  Throughput: "\<close>.
\<close>

definition report_v1 :: "config \<Rightarrow> u32 option \<Rightarrow> u32 option \<Rightarrow> u32 option \<Rightarrow> u32 option \<Rightarrow> line list" where
  "report_v1 cfg t1 t2 t3 t4 =
     report ''ServerApp1 Throughput: '' cfg t1 @ report ''ServerApp2 Throughput: '' cfg t2
   @ report ''ServerApp3 Throughput: '' cfg t3 @ report ''ServerApp4 Throughput: '' cfg t4"

text \<open>
  \<^verbatim>\<open>Simulator::Stop (Seconds (simulationTime + 1)); Simulator::Run (); Simulator::Destroy ();\<close>
  and then the four reports.
\<close>

definition main_v1 :: "config \<Rightarrow> (nat \<Rightarrow> u32) \<Rightarrow> outcome" where
  "main_v1 cfg received =
     \<lparr>violations = violations_v1 received,
      BE_MaxAmpduSize = maxAmpduSize (nMpdus cfg) (payloadSize cfg),
      applications = serverApp_v1 cfg @ clientApp1_v1 cfg
        @ serverApps1_v1 @ serverApps2_v1 @ serverApps3_v1 @ serverApps4_v1
        @ clientApps1_v1 @ clientApps2_v1 @ clientApps3_v1 @ clientApps4_v1,
      SimulatorStop = Seconds (simulationTime cfg + 1),
      cout = printed (violations_v1 received)
               (report_v1 cfg (totalPacketsThrough1_v1 received)
                  (totalPacketsThrough2_v1 received) (totalPacketsThrough3_v1 received)
                  (totalPacketsThrough4_v1 received))\<rparr>"

section \<open>hiddenstations2.cc\<close>

text \<open>
  \<^verbatim>\<open>UdpServerHelper myServer (9); ApplicationContainer serverApp1 = myServer.Install
  (wifiApNode.Get (0)); serverApp1.Start (Seconds (0.0)); serverApp1.Stop (Seconds
  (simulationTime + 1));\<close> and the same three more times for \<^verbatim>\<open>serverApp2\<close>,
  \<^verbatim>\<open>serverApp3\<close>, \<^verbatim>\<open>serverApp4\<close>, all on \<^verbatim>\<open>wifiApNode.Get (0)\<close>.
\<close>

definition myServer_hs2 :: helper where
  "myServer_hs2 = UdpServerHelper 9"

definition serverApp_hs2 :: "config \<Rightarrow> nat \<Rightarrow> application list" where
  "serverApp_hs2 cfg oid =
     Stop (Seconds (simulationTime cfg + 1)) (Start 0 (Install myServer_hs2 oid (Get wifiApNode 0)))"

definition serverApp1_hs2 :: "config \<Rightarrow> application list" where
  "serverApp1_hs2 cfg = serverApp_hs2 cfg 0"

definition serverApp2_hs2 :: "config \<Rightarrow> application list" where
  "serverApp2_hs2 cfg = serverApp_hs2 cfg 1"

definition serverApp3_hs2 :: "config \<Rightarrow> application list" where
  "serverApp3_hs2 cfg = serverApp_hs2 cfg 2"

definition serverApp4_hs2 :: "config \<Rightarrow> application list" where
  "serverApp4_hs2 cfg = serverApp_hs2 cfg 3"

text \<open>
  \<^verbatim>\<open>UdpClientHelper myClient1 (ApInterface.GetAddress (1), 9);\<close> with \<^verbatim>\<open>MaxPackets =
  nPackets\<close>, \<^verbatim>\<open>Interval = Time ("0.00002")\<close>, \<^verbatim>\<open>PacketSize = payloadSize\<close>;
  \<^verbatim>\<open>clientApp1 = myClient1.Install (wifiStaNodes); clientApp1.Start (Seconds (1.0));
  clientApp1.Stop (Seconds (simulationTime + 1));\<close> and the same for \<^verbatim>\<open>myClient2\<close>,
  \<^verbatim>\<open>myClient3\<close>, \<^verbatim>\<open>myClient4\<close> with \<^verbatim>\<open>GetAddress (2)\<close>, \<^verbatim>\<open>(3)\<close>, \<^verbatim>\<open>(4)\<close>.
\<close>

definition myClient_hs2 :: "config \<Rightarrow> nat \<Rightarrow> helper" where
  "myClient_hs2 cfg i =
     SetAttribute ''PacketSize'' (UintegerValue (unat (payloadSize cfg)))
    (SetAttribute ''Interval'' (TimeValue (2 / 100000))
    (SetAttribute ''MaxPackets'' (UintegerValue (unat (nPackets cfg)))
    (UdpClientHelper (Get ApInterface i) 9)))"

definition clientApp_hs2 :: "config \<Rightarrow> nat \<Rightarrow> nat \<Rightarrow> application list" where
  "clientApp_hs2 cfg i oid =
     Stop (Seconds (simulationTime cfg + 1))
       (Start 1 (InstallAll (myClient_hs2 cfg i) oid wifiStaNodes))"

definition clientApp1_hs2 :: "config \<Rightarrow> application list" where
  "clientApp1_hs2 cfg = clientApp_hs2 cfg 1 4"

definition clientApp2_hs2 :: "config \<Rightarrow> application list" where
  "clientApp2_hs2 cfg = clientApp_hs2 cfg 2 8"

definition clientApp3_hs2 :: "config \<Rightarrow> application list" where
  "clientApp3_hs2 cfg = clientApp_hs2 cfg 3 12"

definition clientApp4_hs2 :: "config \<Rightarrow> application list" where
  "clientApp4_hs2 cfg = clientApp_hs2 cfg 4 16"

text \<open>
  \<^verbatim>\<open>uint32_t totalPacketsThrough1 = DynamicCast<UdpServer> (serverApp1.Get (0))->GetReceived
  ();\<close> and the same for \<^verbatim>\<open>serverApp2\<close>, \<^verbatim>\<open>serverApp3\<close>, \<^verbatim>\<open>serverApp4\<close>.
\<close>

definition totalPacketsThrough_hs2 :: "application list \<Rightarrow> (nat \<Rightarrow> u32) \<Rightarrow> u32 option" where
  "totalPacketsThrough_hs2 serverApp received =
     GetReceived received (DynamicCast_UdpServer (Get serverApp 0))"

text \<open>
  The lookups of \<^verbatim>\<open>main\<close> in program order; \<^verbatim>\<open>EnablePcap\<close> is called on
  \<^verbatim>\<open>apDevice.Get (0)\<close> and on \<^verbatim>\<open>staDevices.Get (0)\<close> to \<^verbatim>\<open>staDevices.Get (4)\<close>.
\<close>

definition violations_hs2 :: "config \<Rightarrow> (nat \<Rightarrow> u32) \<Rightarrow> fault list" where
  "violations_hs2 cfg received =
     index_check ''wifiApNode'' wifiApNode 0
   @ index_check ''wifiApNode'' wifiApNode 0
   @ index_check ''wifiApNode'' wifiApNode 0
   @ index_check ''wifiApNode'' wifiApNode 0
   @ index_check ''ApInterface'' ApInterface 1
   @ index_check ''ApInterface'' ApInterface 2
   @ index_check ''ApInterface'' ApInterface 3
   @ index_check ''ApInterface'' ApInterface 4
   @ index_check ''apDevice'' apDevice 0
   @ index_check ''staDevices'' staDevices 0
   @ index_check ''staDevices'' staDevices 1
   @ index_check ''staDevices'' staDevices 2
   @ index_check ''staDevices'' staDevices 3
   @ index_check ''staDevices'' staDevices 4
   @ index_check ''serverApp1'' (serverApp1_hs2 cfg) 0
   @ null_check ''serverApp1'' (totalPacketsThrough_hs2 (serverApp1_hs2 cfg) received)
   @ index_check ''serverApp2'' (serverApp2_hs2 cfg) 0
   @ null_check ''serverApp2'' (totalPacketsThrough_hs2 (serverApp2_hs2 cfg) received)
   @ index_check ''serverApp3'' (serverApp3_hs2 cfg) 0
   @ null_check ''serverApp3'' (totalPacketsThrough_hs2 (serverApp3_hs2 cfg) received)
   @ index_check ''serverApp4'' (serverApp4_hs2 cfg) 0
   @ null_check ''serverApp4'' (totalPacketsThrough_hs2 (serverApp4_hs2 cfg) received)"

text \<open>
  The four reports after the run, as a function of what the four reads give:
  \<^verbatim>\<open>std::cout << " 1Throughput: " << throughput1 << " Mbit/s" << '\n';\<close>
  then \<^verbatim>\<open>"2 Throughput: "\<close>, \<^verbatim>\<open>"3 Throughput: "\<close>, \<^verbatim>\<open>"4 Throughput: "\<close>.
\<close>

definition report_hs2 :: "config \<Rightarrow> u32 option \<Rightarrow> u32 option \<Rightarrow> u32 option \<Rightarrow> u32 option \<Rightarrow> line list" where
  "report_hs2 cfg t1 t2 t3 t4 =
     report '' 1Throughput: '' cfg t1 @ report ''2 Throughput: '' cfg t2
   @ report ''3 Throughput: '' cfg t3 @ report ''4 Throughput: '' cfg t4"

text \<open>
  \<^verbatim>\<open>Simulator::Stop (Seconds (simulationTime + 1)); Simulator::Run (); Simulator::Destroy ();\<close>
  and then the four reports, which lie behind the out-of-range lookups of the client
  helpers and of \<^verbatim>\<open>EnablePcap\<close>.
\<close>

definition main_hs2 :: "config \<Rightarrow> (nat \<Rightarrow> u32) \<Rightarrow> outcome" where
  "main_hs2 cfg received =
     \<lparr>violations = violations_hs2 cfg received,
      BE_MaxAmpduSize = maxAmpduSize (nMpdus cfg) (payloadSize cfg),
      applications = serverApp1_hs2 cfg @ serverApp2_hs2 cfg @ serverApp3_hs2 cfg
        @ serverApp4_hs2 cfg @ clientApp1_hs2 cfg @ clientApp2_hs2 cfg @ clientApp3_hs2 cfg
        @ clientApp4_hs2 cfg,
      SimulatorStop = Seconds (simulationTime cfg + 1),
      cout = printed (violations_hs2 cfg received)
               (report_hs2 cfg (totalPacketsThrough_hs2 (serverApp1_hs2 cfg) received)
                  (totalPacketsThrough_hs2 (serverApp2_hs2 cfg) received)
                  (totalPacketsThrough_hs2 (serverApp3_hs2 cfg) received)
                  (totalPacketsThrough_hs2 (serverApp4_hs2 cfg) received))\<rparr>"

section \<open>hiddenstations3.cc\<close>

text \<open>
  The trace sink: \<^verbatim>\<open>std::cout << context << std::endl; std::cout << "\tRxTrace: size = " <<
  pkt->GetSize () << " From Address: " << ... (a).GetIpv4 () << " LocalAddress: " << ...
  (b).GetIpv4 () << std::endl;\<close> The run calls it once for every packet an echo client
  receives; these events are a parameter of the model.
\<close>

type_synonym rx_event = "string \<times> nat \<times> Ipv4Address \<times> Ipv4Address"

definition RxTrace :: "rx_event \<Rightarrow> line list" where
  "RxTrace e =
     (case e of (context, pktSize, a, b) \<Rightarrow>
        [[Str context],
         [Str (CHR 0x09 # ''RxTrace: size = ''), Num pktSize, Str '' From Address: '', Addr a,
          Str '' LocalAddress: '', Addr b]])"

text \<open>
  \<^verbatim>\<open>UdpEchoServerHelper myServer (9);\<close> \<^verbatim>\<open>serverApp\<close>, \<^verbatim>\<open>serverApp2\<close> and
  \<^verbatim>\<open>serverApp4\<close> are \<^verbatim>\<open>myServer.Install (wifiApNode.Get (0))\<close>; \<^verbatim>\<open>serverApp3\<close> is
  \<^verbatim>\<open>myServer.Install (wifiApNode).Get (0)\<close>, the container of the one application that
  \<^verbatim>\<open>Get (0)\<close> returns. The first two start at 0, the last two at 1; all stop at
  \<^verbatim>\<open>simulationTime + 1\<close>.
\<close>

definition myServer_hs3 :: helper where
  "myServer_hs3 = UdpEchoServerHelper 9"

definition ApplicationContainer :: "application option \<Rightarrow> application list" where
  "ApplicationContainer p = (case p of None \<Rightarrow> [] | Some a \<Rightarrow> [a])"

definition serverApp_hs3 :: "config \<Rightarrow> application list" where
  "serverApp_hs3 cfg =
     Stop (Seconds (simulationTime cfg + 1)) (Start 0 (Install myServer_hs3 0 (Get wifiApNode 0)))"

definition serverApp2_hs3 :: "config \<Rightarrow> application list" where
  "serverApp2_hs3 cfg =
     Stop (Seconds (simulationTime cfg + 1)) (Start 0 (Install myServer_hs3 1 (Get wifiApNode 0)))"

definition serverApp3_hs3 :: "config \<Rightarrow> application list" where
  "serverApp3_hs3 cfg =
     Stop (Seconds (simulationTime cfg + 1))
       (Start 1 (ApplicationContainer (Get (InstallAll myServer_hs3 2 wifiApNode) 0)))"

definition serverApp4_hs3 :: "config \<Rightarrow> application list" where
  "serverApp4_hs3 cfg =
     Stop (Seconds (simulationTime cfg + 1)) (Start 1 (Install myServer_hs3 3 (Get wifiApNode 0)))"

text \<open>
  \<^verbatim>\<open>UdpEchoClientHelper myClient (ApInterface.GetAddress (0), 9);\<close> and \<^verbatim>\<open>myClient2\<close>,
  \<^verbatim>\<open>myClient3\<close>, \<^verbatim>\<open>myClient4\<close> to the same address on the ports 10, 11, 12, each with
  \<^verbatim>\<open>MaxPackets = nPackets\<close>, \<^verbatim>\<open>Interval = Time ("0.1")\<close>, \<^verbatim>\<open>PacketSize = payloadSize\<close>.
\<close>

definition myClient_hs3 :: "config \<Rightarrow> nat \<Rightarrow> helper" where
  "myClient_hs3 cfg port =
     SetAttribute ''PacketSize'' (UintegerValue (unat (payloadSize cfg)))
    (SetAttribute ''Interval'' (TimeValue (1 / 10))
    (SetAttribute ''MaxPackets'' (UintegerValue (unat (nPackets cfg)))
    (UdpEchoClientHelper (Get ApInterface 0) port)))"

text \<open>
  \<^verbatim>\<open>clientApp1 = myClient.Install (wifiStaNodes.Get (0)); clientApp1.Start (Seconds (1.0));
  clientApp1.Stop (Seconds (simulationTime + 1));\<close> then \<^verbatim>\<open>clientApp2\<close> from
  \<^verbatim>\<open>myClient2\<close> on \<^verbatim>\<open>Get (1)\<close> starting at 2, \<^verbatim>\<open>clientApp3\<close> from \<^verbatim>\<open>myClient3\<close> on
  \<^verbatim>\<open>Get (2)\<close> starting at 3, \<^verbatim>\<open>clientApp4\<close> from \<^verbatim>\<open>myClient4\<close> on \<^verbatim>\<open>Get (3)\<close> starting
  at 4.
\<close>

definition clientApp1_hs3 :: "config \<Rightarrow> application list" where
  "clientApp1_hs3 cfg =
     Stop (Seconds (simulationTime cfg + 1))
       (Start 1 (Install (myClient_hs3 cfg 9) 4 (Get wifiStaNodes 0)))"

definition clientApp2_hs3 :: "config \<Rightarrow> application list" where
  "clientApp2_hs3 cfg =
     Stop (Seconds (simulationTime cfg + 1))
       (Start 2 (Install (myClient_hs3 cfg 10) 5 (Get wifiStaNodes 1)))"

definition clientApp3_hs3 :: "config \<Rightarrow> application list" where
  "clientApp3_hs3 cfg =
     Stop (Seconds (simulationTime cfg + 1))
       (Start 3 (Install (myClient_hs3 cfg 11) 6 (Get wifiStaNodes 2)))"

definition clientApp4_hs3 :: "config \<Rightarrow> application list" where
  "clientApp4_hs3 cfg =
     Stop (Seconds (simulationTime cfg + 1))
       (Start 4 (Install (myClient_hs3 cfg 12) 7 (Get wifiStaNodes 3)))"

text \<open>
  \<^verbatim>\<open>Config::Set ("/NodeList/*/ApplicationList/*/$ns3::UdpEchoClient/MaxPackets",
  UintegerValue (3));\<close> sets the attribute in every echo client that is in the application
  list of a node at this point. The containers hold the applications by reference: their
  state at the end of \<^verbatim>\<open>main\<close> is the field \<open>applications\<close> of the result.
\<close>

definition Config_Set_UdpEchoClient :: "string \<Rightarrow> AttributeValue \<Rightarrow> application list \<Rightarrow> application list" where
  "Config_Set_UdpEchoClient name v c =
     map (\<lambda>a. if app_type a = UdpEchoClient \<and> app_node a \<noteq> None
               then a\<lparr>app_attributes := AList.update name v (app_attributes a)\<rparr> else a) c"

definition violations_hs3 :: "fault list" where
  "violations_hs3 =
     index_check ''wifiApNode'' wifiApNode 0
   @ index_check ''wifiApNode'' wifiApNode 0
   @ index_check ''myServer.Install (wifiApNode)'' (InstallAll myServer_hs3 2 wifiApNode) 0
   @ index_check ''wifiApNode'' wifiApNode 0
   @ index_check ''ApInterface'' ApInterface 0
   @ index_check ''ApInterface'' ApInterface 0
   @ index_check ''ApInterface'' ApInterface 0
   @ index_check ''ApInterface'' ApInterface 0
   @ index_check ''wifiStaNodes'' wifiStaNodes 0
   @ index_check ''wifiStaNodes'' wifiStaNodes 1
   @ index_check ''wifiStaNodes'' wifiStaNodes 2
   @ index_check ''wifiStaNodes'' wifiStaNodes 3
   @ index_check ''apDevice'' apDevice 0
   @ index_check ''staDevices'' staDevices 0
   @ index_check ''staDevices'' staDevices 1
   @ index_check ''staDevices'' staDevices 2
   @ index_check ''staDevices'' staDevices 3"

text \<open>
  \<^verbatim>\<open>Simulator::Stop (Seconds (simulationTime + 1)); Simulator::Run (); Simulator::Destroy ();
  return 0;\<close> The statements that read the counters and print the throughput are commented
  out; what reaches \<^verbatim>\<open>std::cout\<close> is written by \<^verbatim>\<open>RxTrace\<close> during the run.
\<close>

definition main_hs3 :: "config \<Rightarrow> rx_event list \<Rightarrow> outcome" where
  "main_hs3 cfg events =
     \<lparr>violations = violations_hs3,
      BE_MaxAmpduSize = maxAmpduSize (nMpdus cfg) (payloadSize cfg),
      applications = Config_Set_UdpEchoClient ''MaxPackets'' (UintegerValue 3)
        (serverApp_hs3 cfg @ serverApp2_hs3 cfg @ serverApp3_hs3 cfg @ serverApp4_hs3 cfg
         @ clientApp1_hs3 cfg @ clientApp2_hs3 cfg @ clientApp3_hs3 cfg @ clientApp4_hs3 cfg),
      SimulatorStop = Seconds (simulationTime cfg + 1),
      cout = printed violations_hs3 (concat (map RxTrace events))\<rparr>"

section \<open>hiddenstations.cc\<close>

text \<open>
  The script is not a program (its report reads the undeclared \<^verbatim>\<open>serverApp\<close>); these are
  its server installations and client helpers. \<^verbatim>\<open>UdpEchoServerHelper myServer (9);
  serverApp1 = myServer.Install (wifiApNode.Get (0));\<close> up to \<^verbatim>\<open>serverApp5 =
  myServer.Install (wifiApNode.Get (4));\<close> each started at 0 and stopped at
  \<^verbatim>\<open>simulationTime + 1\<close>, and \<^verbatim>\<open>UdpClientHelper myClient1 (ApInterface.GetAddress (0), 9);\<close>
  up to \<^verbatim>\<open>myClient5 (ApInterface.GetAddress (4), 9)\<close>, each with \<^verbatim>\<open>MaxPackets =
  4294967295u\<close>, \<^verbatim>\<open>Interval = Time ("0.00002")\<close>, \<^verbatim>\<open>PacketSize = payloadSize\<close>.
\<close>

definition myServer_hs :: helper where
  "myServer_hs = UdpEchoServerHelper 9"

definition serverApp_hs :: "config \<Rightarrow> nat \<Rightarrow> application list" where
  "serverApp_hs cfg i =
     Stop (Seconds (simulationTime cfg + 1)) (Start 0 (Install myServer_hs i (Get wifiApNode i)))"

definition myClient_hs :: "config \<Rightarrow> nat \<Rightarrow> helper" where
  "myClient_hs cfg i =
     SetAttribute ''PacketSize'' (UintegerValue (unat (payloadSize cfg)))
    (SetAttribute ''Interval'' (TimeValue (2 / 100000))
    (SetAttribute ''MaxPackets'' (UintegerValue 4294967295)
    (UdpClientHelper (Get ApInterface i) 9)))"

section \<open>Start, stop and horizon\<close>

text \<open>
  The window of an application: it starts before it stops and stops no later than the
  horizon \<open>h\<close>.
\<close>

definition within_horizon :: "real \<Rightarrow> application \<Rightarrow> bool" where
  "within_horizon h a = (StartTime a < StopTime a \<and> StopTime a \<le> h)"

section \<open>The form of a report line\<close>

text \<open>
  A line of the form \<^verbatim>\<open><label> Throughput: <value> Mbit/s\<close>: a text that ends in
  \<^verbatim>\<open>" Throughput: "\<close>, a number, and the text \<^verbatim>\<open>" Mbit/s"\<close>.
\<close>

fun throughput_line :: "line \<Rightarrow> bool" where
  "throughput_line [Str p, Dbl v, Str u] =
     (u = '' Mbit/s'' \<and> drop (length p - length '' Throughput: '') p = '' Throughput: '')"
| "throughput_line l = False"

section \<open>Properties\<close>

subsection \<open>Containers and positions\<close>

lemma wifiStaNodes_eq: "wifiStaNodes = [0, 1, 2, 3]"
  by (simp add: wifiStaNodes_def NodeContainer_Create_def upt_rec)

lemma wifiApNode_eq: "wifiApNode = [4]"
  by (simp add: wifiApNode_def wifiStaNodes_eq NodeContainer_Create_def upt_rec)

lemma mobility_eq:
  "mobility = [(4, (5, 5, 0)), (0, (5, 10, 0)), (1, (0, 5, 0)), (2, (5, 0, 0)), (3, (10, 5, 0))]"
  by (simp add: mobility_def MobilityHelper_Install_def positionAlloc_def
      wifiStaNodes_eq wifiApNode_eq upt_rec)

lemma sqrt_25: "sqrt 25 = 5"
  by (rule real_sqrt_unique) simp_all

lemma sqrt_100: "sqrt 100 = 10"
  by (rule real_sqrt_unique) simp_all

lemma distance_AP_stations:
  "GetDistanceFrom 4 0 = Some 5" "GetDistanceFrom 4 (Suc 0) = Some 5"
  "GetDistanceFrom 4 2 = Some 5" "GetDistanceFrom 4 3 = Some 5"
  by (simp_all add: GetDistanceFrom_def GetPosition_def mobility_eq CalculateDistance_def sqrt_25)

lemma distance_opposite_stations:
  "GetDistanceFrom 0 2 = Some 10" "GetDistanceFrom (Suc 0) 3 = Some 10"
  by (simp_all add: GetDistanceFrom_def GetPosition_def mobility_eq CalculateDistance_def sqrt_100)

subsection \<open>Topology and the first variant of simple-ht-hidden-stations.cc\<close>

lemma staDevices_eq: "staDevices = [0, 1, 2, 3]"
  by (simp add: staDevices_def WifiHelper_Install_def wifiStaNodes_eq)

lemma apDevice_eq: "apDevice = [4]"
  by (simp add: apDevice_def WifiHelper_Install_def wifiApNode_eq)

lemma StaInterface_eq:
  "StaInterface = [(192, 168, 1, 1), (192, 168, 1, 2), (192, 168, 1, 3), (192, 168, 1, 4)]"
  by (simp add: StaInterface_def Ipv4AddressHelper_Assign_def staDevices_eq upt_rec)

lemma ApInterface_eq: "ApInterface = [(192, 168, 1, 5)]"
  by (simp add: ApInterface_def Ipv4AddressHelper_Assign_def staDevices_eq apDevice_eq upt_rec)

lemma sqrt_50: "5 < sqrt 50"
  by (rule real_less_rsqrt) simp

lemma hidden_pairs_eq: "hidden_pairs = [(0, 1), (0, 2), (0, 3), (1, 2), (1, 3), (2, 3)]"
  by (simp add: hidden_pairs_def wifiStaNodes_eq hidden_def GetDistanceFrom_def GetPosition_def
      mobility_eq CalculateDistance_def MaxRange_def sqrt_100 sqrt_50)

text \<open>
  Claim C3. In the fixed layout with \<open>MaxRange = 5\<close> the access point (node 4) stands at
  \<open>(5, 5)\<close> and the stations (nodes 0 to 3) at \<open>(5, 10)\<close>, \<open>(0, 5)\<close>, \<open>(5, 0)\<close>,
  \<open>(10, 5)\<close>. The distance from the access point to each station is \<open>MaxRange\<close>, the
  distance between the opposite stations 0 and 2, and 1 and 3, is \<open>2 * MaxRange\<close>, which is
  greater than \<open>MaxRange\<close>: these pairs are hidden from each other, so the list of hidden
  pairs is not empty.
\<close>

theorem hidden_station_topology:
  "Get wifiApNode 0 = Some 4 \<and> map (Get wifiStaNodes) [0, 1, 2, 3] = [Some 0, Some 1, Some 2, Some 3]
   \<and> GetPosition 4 = Some (5, 5, 0)
   \<and> map GetPosition [0, 1, 2, 3] = [Some (5, 10, 0), Some (0, 5, 0), Some (5, 0, 0), Some (10, 5, 0)]
   \<and> MaxRange = 5
   \<and> map (GetDistanceFrom 4) [0, 1, 2, 3] = [Some MaxRange, Some MaxRange, Some MaxRange, Some MaxRange]
   \<and> GetDistanceFrom 0 2 = Some (2 * MaxRange)
   \<and> GetDistanceFrom 1 3 = Some (2 * MaxRange)
   \<and> MaxRange < 2 * MaxRange
   \<and> hidden 0 2 \<and> hidden 1 3 \<and> hidden_pairs \<noteq> []"
  by (simp add: Get_def wifiApNode_eq wifiStaNodes_eq GetPosition_def mobility_eq MaxRange_def
      distance_AP_stations distance_opposite_stations hidden_def hidden_pairs_eq)

lemma serverApps1_v1_eq:
  "serverApps1_v1 = [\<lparr>app_id = 5, app_type = UdpEchoServer, app_node = None,
     app_attributes = [(''Port'', UintegerValue 9)], StartTime = 1, StopTime = 10\<rparr>]"
  by (simp add: serverApps1_v1_def echoServer_v1_def UdpEchoServerHelper_def Install_def
      Start_def Stop_def Get_def wifiApNode_eq)

lemma serverApps2_v1_eq:
  "serverApps2_v1 = [\<lparr>app_id = 6, app_type = UdpEchoServer, app_node = None,
     app_attributes = [(''Port'', UintegerValue 9)], StartTime = 1, StopTime = 10\<rparr>]"
  by (simp add: serverApps2_v1_def echoServer_v1_def UdpEchoServerHelper_def Install_def
      Start_def Stop_def Get_def wifiApNode_eq)

lemma serverApps3_v1_eq:
  "serverApps3_v1 = [\<lparr>app_id = 7, app_type = UdpEchoServer, app_node = None,
     app_attributes = [(''Port'', UintegerValue 9)], StartTime = 1, StopTime = 10\<rparr>]"
  by (simp add: serverApps3_v1_def echoServer_v1_def UdpEchoServerHelper_def Install_def
      Start_def Stop_def Get_def wifiApNode_eq)

lemma serverApps4_v1_eq:
  "serverApps4_v1 = [\<lparr>app_id = 8, app_type = UdpEchoServer, app_node = None,
     app_attributes = [(''Port'', UintegerValue 9)], StartTime = 1, StopTime = 10\<rparr>]"
  by (simp add: serverApps4_v1_def echoServer_v1_def UdpEchoServerHelper_def Install_def
      Start_def Stop_def Get_def wifiApNode_eq)

lemmas serverApps_v1_eq = serverApps1_v1_eq serverApps2_v1_eq serverApps3_v1_eq serverApps4_v1_eq

lemma totalPacketsThrough_v1_eq:
  "totalPacketsThrough1_v1 received = None" "totalPacketsThrough2_v1 received = None"
  "totalPacketsThrough3_v1 received = None" "totalPacketsThrough4_v1 received = None"
  by (simp_all add: totalPacketsThrough1_v1_def totalPacketsThrough2_v1_def
      totalPacketsThrough3_v1_def totalPacketsThrough4_v1_def serverApps_v1_eq Get_def
      DynamicCast_UdpServer_def GetReceived_def)

lemma violations_v1_eq:
  "violations_v1 received =
     [IndexOutOfRange ''ApInterface'' 1 1,
      IndexOutOfRange ''wifiApNode'' 1 1, IndexOutOfRange ''wifiApNode'' 2 1,
      IndexOutOfRange ''wifiApNode'' 3 1, IndexOutOfRange ''wifiApNode'' 4 1,
      IndexOutOfRange ''StaInterface'' 4 4, IndexOutOfRange ''wifiStaNodes'' 4 4,
      NullDereference ''serverApps1'', NullDereference ''serverApps2'',
      NullDereference ''serverApps3'', NullDereference ''serverApps4'']"
  by (simp add: violations_v1_def index_check_def null_check_def ApInterface_eq StaInterface_eq
      wifiApNode_eq wifiStaNodes_eq staDevices_eq apDevice_eq totalPacketsThrough_v1_eq
      serverApps_v1_eq)

text \<open>
  Claim C10. In the first variant of simple-ht-hidden-stations.cc the access-point container
  holds exactly one node, and the four echo-server installations index it at 1, 2, 3 and 4:
  each \<open>Get\<close> takes the out-of-range branch, the four echo servers are created on no valid
  node, and whatever the command line and the run are, the violated preconditions of
  \<open>main\<close> contain these four container accesses.
\<close>

theorem echo_server_indexes_ap_container:
  "length wifiApNode = 1
   \<and> map (Get wifiApNode) [1, 2, 3, 4] = [None, None, None, None]
   \<and> map app_node (serverApps1_v1 @ serverApps2_v1 @ serverApps3_v1 @ serverApps4_v1)
       = [None, None, None, None]
   \<and> filter (\<lambda>f. case f of IndexOutOfRange c i n \<Rightarrow> c = ''wifiApNode'' | NullDereference c \<Rightarrow> False)
        (violations (main_v1 cfg received))
       = [IndexOutOfRange ''wifiApNode'' 1 1, IndexOutOfRange ''wifiApNode'' 2 1,
          IndexOutOfRange ''wifiApNode'' 3 1, IndexOutOfRange ''wifiApNode'' 4 1]"
  by (simp add: wifiApNode_eq Get_def serverApps_v1_eq main_v1_def violations_v1_eq)

text \<open>
  Claim C9. In the first variant of simple-ht-hidden-stations.cc every application whose
  counter is read after the run was created by the echo server helper: it is a
  \<open>UdpEchoServer\<close>, the cast to \<open>UdpServer\<close> gives the null pointer, and \<open>GetReceived\<close>
  dereferences it. Whatever the command line and the counters are, each of the four reads
  takes the error branch, and no throughput line is printed.
\<close>

theorem counter_read_through_null:
  "map app_type (serverApps1_v1 @ serverApps2_v1 @ serverApps3_v1 @ serverApps4_v1)
     = [UdpEchoServer, UdpEchoServer, UdpEchoServer, UdpEchoServer]
   \<and> map (\<lambda>c. DynamicCast_UdpServer (Get c 0))
        [serverApps1_v1, serverApps2_v1, serverApps3_v1, serverApps4_v1]
     = [None, None, None, None]
   \<and> [totalPacketsThrough1_v1 received, totalPacketsThrough2_v1 received,
       totalPacketsThrough3_v1 received, totalPacketsThrough4_v1 received]
     = [None, None, None, None]
   \<and> filter (\<lambda>f. case f of IndexOutOfRange c i n \<Rightarrow> False | NullDereference c \<Rightarrow> True)
        (violations (main_v1 cfg received))
     = [NullDereference ''serverApps1'', NullDereference ''serverApps2'',
        NullDereference ''serverApps3'', NullDereference ''serverApps4'']
   \<and> cout (main_v1 cfg received) = []"
  by (simp add: serverApps_v1_eq Get_def DynamicCast_UdpServer_def totalPacketsThrough_v1_eq
      main_v1_def violations_v1_eq printed_def)


subsection \<open>Aggregation budget\<close>

lemma unat_maxAmpduSize:
  "unat (maxAmpduSize U P) = (unat U * (unat P + 200)) mod 2 ^ 32"
  by (simp add: maxAmpduSize_def unat_word_ariths mod_simps)

lemma maxAmpduSize_exact:
  "unat U * (unat P + 200) < 2 ^ 32 \<Longrightarrow> unat (maxAmpduSize U P) = unat U * (unat P + 200)"
  by (simp add: unat_maxAmpduSize)

text \<open>
  Claim C2, as the code has it. The budget that every script hands to the MAC layer is a
  \<^verbatim>\<open>uint32_t\<close>: it is \<open>U * (P + 200)\<close> reduced modulo \<open>2^32\<close>, and it is the number
  \<open>U * (P + 200)\<close> itself exactly when that number is below \<open>2^32\<close>.
\<close>

theorem maxAmpduSize_mod:
  "BE_MaxAmpduSize (main_v1 cfg received) = maxAmpduSize (nMpdus cfg) (payloadSize cfg)
   \<and> BE_MaxAmpduSize (main_hs2 cfg received) = maxAmpduSize (nMpdus cfg) (payloadSize cfg)
   \<and> BE_MaxAmpduSize (main_hs3 cfg events) = maxAmpduSize (nMpdus cfg) (payloadSize cfg)
   \<and> unat (maxAmpduSize U P) = (unat U * (unat P + 200)) mod 2 ^ 32
   \<and> (unat (maxAmpduSize U P) = unat U * (unat P + 200)) = (unat U * (unat P + 200) < 2 ^ 32)"
proof -
  have m: "unat (maxAmpduSize U P) = (unat U * (unat P + 200)) mod 2 ^ 32"
    by (rule unat_maxAmpduSize)
  have "((unat U * (unat P + 200)) mod 2 ^ 32 = unat U * (unat P + 200))
        = (unat U * (unat P + 200) < 2 ^ 32)"
    by (simp add: mod_less_eq_dividend mod_eq_self_iff_div_eq_0 div_eq_0_iff)
  with m show ?thesis by (simp add: main_v1_def main_hs2_def main_hs3_def)
qed

text \<open>
  Claim C2 as stated fails where the product does not fit 32 bits: with \<^verbatim>\<open>--nMpdus=65536
  --payloadSize=65336\<close> the sum is \<open>65536\<close>, the product is \<open>2^32\<close>, and the budget that
  the first variant of simple-ht-hidden-stations.cc hands over is 0.
\<close>

theorem maxAmpduSize_overflow:
  "(1::u32) \<le> 65536 \<and> (0::u32) \<le> 65336
   \<and> unat (BE_MaxAmpduSize
         (main_v1 (defaults\<lparr>nMpdus := 65536, payloadSize := 65336\<rparr>) (\<lambda>oid. 0))) = 0
   \<and> unat (maxAmpduSize 65536 65336) \<noteq> 65536 * (65336 + 200)"
  by (simp add: main_v1_def defaults_def maxAmpduSize_def)

subsection \<open>Throughput\<close>

lemma throughput_bits_exact:
  "unat n * unat p * 8 < 2 ^ 32 \<Longrightarrow> unat (throughput_bits n p) = unat n * unat p * 8"
  by (simp add: throughput_bits_def unat_word_ariths mod_simps)

text \<open>
  Where the bit count fits 32 bits and the duration is not zero, the value is the one of
  the formula; a counter of 0 then gives 0. A duration of 0 with a counter of 0 gives NaN.
\<close>

lemma throughput_exact:
  "unat n * unat p * 8 < 2 ^ 32 \<Longrightarrow> t \<noteq> 0 \<Longrightarrow>
   throughput n p t = Finite (real (unat n) * real (unat p) * 8 / (real (unat t) * 1000000))"
  by (simp add: throughput_def throughput_bits_exact double_div_def unsigned_eq_0_iff)

lemma throughput_zero: "t \<noteq> 0 \<Longrightarrow> throughput 0 p t = Finite 0"
  by (simp add: throughput_def throughput_bits_def double_div_def unsigned_eq_0_iff)

lemma throughput_zero_duration: "throughput 0 p 0 = NaN"
  by (simp add: throughput_def throughput_bits_def double_div_def)

subsection \<open>hiddenstations2.cc\<close>

lemma serverApp_hs2_eq:
  "serverApp_hs2 cfg oid = [\<lparr>app_id = oid, app_type = UdpServer, app_node = Some 4,
     app_attributes = [(''Port'', UintegerValue 9)], StartTime = 0,
     StopTime = Seconds (simulationTime cfg + 1)\<rparr>]"
  by (simp add: serverApp_hs2_def myServer_hs2_def UdpServerHelper_def Install_def
      Start_def Stop_def Get_def wifiApNode_eq)

lemma length_serverApp_hs2: "length (serverApp_hs2 cfg oid) = 1"
  by (simp add: serverApp_hs2_eq)

lemma totalPacketsThrough_hs2_eq:
  "totalPacketsThrough_hs2 (serverApp_hs2 cfg oid) received = Some (received oid)"
  by (simp add: totalPacketsThrough_hs2_def serverApp_hs2_eq Get_def DynamicCast_UdpServer_def
      GetReceived_def)

lemma violations_hs2_eq:
  "violations_hs2 cfg received =
     [IndexOutOfRange ''ApInterface'' 1 1, IndexOutOfRange ''ApInterface'' 2 1,
      IndexOutOfRange ''ApInterface'' 3 1, IndexOutOfRange ''ApInterface'' 4 1,
      IndexOutOfRange ''staDevices'' 4 4]"
  by (simp add: violations_hs2_def index_check_def null_check_def ApInterface_eq
      wifiApNode_eq staDevices_eq apDevice_eq serverApp1_hs2_def serverApp2_hs2_def
      serverApp3_hs2_def serverApp4_hs2_def totalPacketsThrough_hs2_eq length_serverApp_hs2)

lemma cout_hs2: "cout (main_hs2 cfg received) = []"
  by (simp add: main_hs2_def violations_hs2_eq printed_def)

subsection \<open>The counter reads of the first variant of simple-ht-hidden-stations.cc\<close>

lemma serverApp_v1_eq:
  "serverApp_v1 cfg = [\<lparr>app_id = 0, app_type = UdpServer, app_node = Some 4,
     app_attributes = [(''Port'', UintegerValue 9)], StartTime = 0,
     StopTime = Seconds (simulationTime cfg + 1)\<rparr>]"
  by (simp add: serverApp_v1_def myServer_v1_def UdpServerHelper_def InstallAll_def Install_def
      Start_def Stop_def wifiApNode_eq upt_rec)

text \<open>
  Claim C1 at the default command line of the first variant of
  simple-ht-hidden-stations.cc (the reads do not depend on the command line). The packets of
  the saturating flow are counted by \<^verbatim>\<open>serverApp\<close>, the one \<open>UdpServer\<close> of the script,
  which the report never reads. Each of the four reads goes to an echo server through the
  null pointer, so no counter value reaches the throughput statement, whatever the
  counters are. The statement itself gives 0 for a counter of 0 at these parameters.
\<close>

theorem throughput_never_computed:
  "map app_type (serverApp_v1 defaults) = [UdpServer]
   \<and> map (map_option (\<lambda>n. throughput n (payloadSize defaults) (simulationTime defaults)))
        [totalPacketsThrough1_v1 received, totalPacketsThrough2_v1 received,
         totalPacketsThrough3_v1 received, totalPacketsThrough4_v1 received]
       = [None, None, None, None]
   \<and> throughput 0 (payloadSize defaults) (simulationTime defaults) = Finite 0"
  by (simp add: serverApp_v1_eq totalPacketsThrough_v1_eq defaults_def throughput_def
      throughput_bits_def double_div_def)

subsection \<open>Start, stop and horizon\<close>

lemma Seconds_succ: "unat t < 2 ^ 64 - 1 \<Longrightarrow> Seconds (t + 1) = real (unat t) + 1"
  by (simp add: Seconds_def unat_word_ariths)

lemma defaults_simulationTime: "unat (simulationTime defaults) = 10"
  by (simp add: defaults_def)

lemma schedule_v1:
  "map (\<lambda>a. (StartTime a, StopTime a)) (applications (main_v1 cfg received)) =
     [(0, Seconds (simulationTime cfg + 1)),
      (1, Seconds (simulationTime cfg + 1)), (1, Seconds (simulationTime cfg + 1)),
      (1, Seconds (simulationTime cfg + 1)), (1, Seconds (simulationTime cfg + 1)),
      (1, 10), (1, 10), (1, 10), (1, 10), (1, 10), (1, 10), (1, 10), (1, 10)]"
  by (simp add: main_v1_def serverApp_v1_def clientApp1_v1_def serverApps_v1_eq
      clientApps1_v1_def clientApps2_v1_def clientApps3_v1_def clientApps4_v1_def
      InstallAll_def Install_def Start_def Stop_def wifiStaNodes_eq wifiApNode_eq upt_rec)

lemma schedule_hs2:
  "map (\<lambda>a. (StartTime a, StopTime a)) (applications (main_hs2 cfg received)) =
     [(0, Seconds (simulationTime cfg + 1)), (0, Seconds (simulationTime cfg + 1)),
      (0, Seconds (simulationTime cfg + 1)), (0, Seconds (simulationTime cfg + 1)),
      (1, Seconds (simulationTime cfg + 1)), (1, Seconds (simulationTime cfg + 1)),
      (1, Seconds (simulationTime cfg + 1)), (1, Seconds (simulationTime cfg + 1)),
      (1, Seconds (simulationTime cfg + 1)), (1, Seconds (simulationTime cfg + 1)),
      (1, Seconds (simulationTime cfg + 1)), (1, Seconds (simulationTime cfg + 1)),
      (1, Seconds (simulationTime cfg + 1)), (1, Seconds (simulationTime cfg + 1)),
      (1, Seconds (simulationTime cfg + 1)), (1, Seconds (simulationTime cfg + 1)),
      (1, Seconds (simulationTime cfg + 1)), (1, Seconds (simulationTime cfg + 1)),
      (1, Seconds (simulationTime cfg + 1)), (1, Seconds (simulationTime cfg + 1))]"
  by (simp add: main_hs2_def serverApp1_hs2_def serverApp2_hs2_def serverApp3_hs2_def
      serverApp4_hs2_def serverApp_hs2_eq clientApp1_hs2_def clientApp2_hs2_def
      clientApp3_hs2_def clientApp4_hs2_def clientApp_hs2_def
      InstallAll_def Install_def Start_def Stop_def wifiStaNodes_eq upt_rec)

lemma schedule_hs3:
  "map (\<lambda>a. (StartTime a, StopTime a)) (applications (main_hs3 cfg events)) =
     [(0, Seconds (simulationTime cfg + 1)), (0, Seconds (simulationTime cfg + 1)),
      (1, Seconds (simulationTime cfg + 1)), (1, Seconds (simulationTime cfg + 1)),
      (1, Seconds (simulationTime cfg + 1)), (2, Seconds (simulationTime cfg + 1)),
      (3, Seconds (simulationTime cfg + 1)), (4, Seconds (simulationTime cfg + 1))]"
  by (simp add: main_hs3_def Config_Set_UdpEchoClient_def serverApp_hs3_def serverApp2_hs3_def
      serverApp3_hs3_def serverApp4_hs3_def clientApp1_hs3_def clientApp2_hs3_def
      clientApp3_hs3_def clientApp4_hs3_def ApplicationContainer_def
      InstallAll_def Install_def Start_def Stop_def Get_def wifiApNode_eq wifiStaNodes_eq upt_rec)

lemma list_all_within_horizon:
  "list_all (within_horizon h) c
     = list_all (\<lambda>w. fst w < snd w \<and> snd w \<le> h) (map (\<lambda>a. (StartTime a, StopTime a)) c)"
  by (simp add: list_all_iff within_horizon_def)

text \<open>
  Claim C6, as the code has it. For a duration of at least 9 seconds and below \<open>2^32\<close>
  seconds (\<open>simulationTime + 1\<close> does not wrap, and the time is exact) the horizon of every
  script is \<open>simulationTime + 1\<close>, and every application starts before it stops and stops no
  later than the horizon. The saturating clients of the first variant of
  simple-ht-hidden-stations.cc stop exactly at the horizon: the horizon is not strictly
  greater than their stop time.
\<close>

theorem horizon_bounds:
  assumes "9 \<le> unat (simulationTime cfg)" and "unat (simulationTime cfg) < 2 ^ 32"
  shows "SimulatorStop (main_v1 cfg received) = real (unat (simulationTime cfg)) + 1
     \<and> SimulatorStop (main_hs2 cfg received) = real (unat (simulationTime cfg)) + 1
     \<and> SimulatorStop (main_hs3 cfg events) = real (unat (simulationTime cfg)) + 1
     \<and> list_all (within_horizon (SimulatorStop (main_v1 cfg received)))
          (applications (main_v1 cfg received))
     \<and> list_all (within_horizon (SimulatorStop (main_hs2 cfg received)))
          (applications (main_hs2 cfg received))
     \<and> list_all (within_horizon (SimulatorStop (main_hs3 cfg events)))
          (applications (main_hs3 cfg events))
     \<and> map StopTime (clientApp1_v1 cfg)
         = [SimulatorStop (main_v1 cfg received), SimulatorStop (main_v1 cfg received),
            SimulatorStop (main_v1 cfg received), SimulatorStop (main_v1 cfg received)]"
proof -
  from assms(2) have "unat (simulationTime cfg) < 2 ^ 64 - 1" by simp
  then have s: "Seconds (simulationTime cfg + 1) = real (unat (simulationTime cfg)) + 1"
    by (rule Seconds_succ)
  have h1: "SimulatorStop (main_v1 cfg received) = real (unat (simulationTime cfg)) + 1"
    by (simp add: main_v1_def s)
  have h2: "SimulatorStop (main_hs2 cfg received) = real (unat (simulationTime cfg)) + 1"
    by (simp add: main_hs2_def s)
  have h3: "SimulatorStop (main_hs3 cfg events) = real (unat (simulationTime cfg)) + 1"
    by (simp add: main_hs3_def s)
  have n: "real 9 \<le> real (unat (simulationTime cfg))"
    using assms(1) by (rule of_nat_mono)
  have a1: "list_all (within_horizon (SimulatorStop (main_v1 cfg received)))
          (applications (main_v1 cfg received))"
    using n by (simp add: list_all_within_horizon schedule_v1 h1 s)
  have a2: "list_all (within_horizon (SimulatorStop (main_hs2 cfg received)))
          (applications (main_hs2 cfg received))"
    using n by (simp add: list_all_within_horizon schedule_hs2 h2 s)
  have a3: "list_all (within_horizon (SimulatorStop (main_hs3 cfg events)))
          (applications (main_hs3 cfg events))"
    using n by (simp add: list_all_within_horizon schedule_hs3 h3 s)
  have c: "map StopTime (clientApp1_v1 cfg)
         = [SimulatorStop (main_v1 cfg received), SimulatorStop (main_v1 cfg received),
            SimulatorStop (main_v1 cfg received), SimulatorStop (main_v1 cfg received)]"
    by (simp add: h1 s clientApp1_v1_def InstallAll_def Install_def Start_def Stop_def
        wifiStaNodes_eq upt_rec)
  from h1 h2 h3 a1 a2 a3 c show ?thesis by simp
qed

theorem horizon_bounds_witness:
  "9 \<le> unat (simulationTime defaults) \<and> unat (simulationTime defaults) < 2 ^ 32
   \<and> SimulatorStop (main_v1 defaults (\<lambda>oid. 0)) = 11
   \<and> list_all (within_horizon 11) (applications (main_v1 defaults (\<lambda>oid. 0)))
   \<and> list_all (within_horizon 11) (applications (main_hs2 defaults (\<lambda>oid. 0)))
   \<and> list_all (within_horizon 11) (applications (main_hs3 defaults []))"
proof -
  have h1: "9 \<le> unat (simulationTime defaults)" by (simp add: defaults_simulationTime)
  have h2: "unat (simulationTime defaults) < 2 ^ 32" by (simp add: defaults_simulationTime)
  show ?thesis
    using h1 h2 horizon_bounds [OF h1 h2, of "\<lambda>oid. 0" "[]"]
    by (clarsimp simp add: defaults_simulationTime)
qed

text \<open>
  Claim C6 as stated fails at the default parameters: the horizon is 11 seconds and the
  four saturating clients stop at 11 seconds, so the horizon is not strictly greater than
  every stop time.
\<close>

theorem horizon_not_strictly_greater:
  "SimulatorStop (main_v1 defaults (\<lambda>oid. 0)) = 11
   \<and> map StopTime (clientApp1_v1 defaults) = [11, 11, 11, 11]
   \<and> \<not> list_all (\<lambda>a. StopTime a < SimulatorStop (main_v1 defaults (\<lambda>oid. 0)))
          (applications (main_v1 defaults (\<lambda>oid. 0)))"
proof -
  have s: "Seconds (simulationTime defaults + 1) = 11"
    by (simp add: Seconds_def defaults_def)
  have h: "SimulatorStop (main_v1 defaults (\<lambda>oid. 0)) = 11"
    by (simp add: main_v1_def s)
  have c: "map StopTime (clientApp1_v1 defaults) = [11, 11, 11, 11]"
    by (simp add: s clientApp1_v1_def InstallAll_def Install_def Start_def Stop_def
        wifiStaNodes_eq upt_rec)
  have "\<not> list_all (\<lambda>w. snd w < 11)
          (map (\<lambda>a. (StartTime a, StopTime a)) (applications (main_v1 defaults (\<lambda>oid. 0))))"
    by (simp add: schedule_v1 s)
  then have "\<not> list_all (\<lambda>a. StopTime a < SimulatorStop (main_v1 defaults (\<lambda>oid. 0)))
          (applications (main_v1 defaults (\<lambda>oid. 0)))"
    by (simp add: list_all_iff h)
  with h c show ?thesis by simp
qed

subsection \<open>Unchecked lookups\<close>

text \<open>
  hiddenstations.cc installs its five echo servers on \<^verbatim>\<open>wifiApNode.Get (0)\<close> to
  \<^verbatim>\<open>wifiApNode.Get (4)\<close>: only the first is a node of the container.
\<close>

lemma serverApp_hs_nodes:
  "map (\<lambda>i. map app_node (serverApp_hs cfg i)) [0, 1, 2, 3, 4]
     = [[Some 4], [None], [None], [None], [None]]"
  by (simp add: serverApp_hs_def myServer_hs_def UdpEchoServerHelper_def Install_def
      Start_def Stop_def Get_def wifiApNode_eq)

lemma clientApp1_v1_eq:
  "clientApp1_v1 cfg =
     map (\<lambda>k. \<lparr>app_id = 1 + k, app_type = UdpClient, app_node = Some k,
        app_attributes =
          [(''RemoteAddress'', AddressValue None), (''RemotePort'', UintegerValue 9),
           (''MaxPackets'', UintegerValue 4294967295), (''Interval'', TimeValue (2 / 100000)),
           (''PacketSize'', UintegerValue (unat (payloadSize cfg)))],
        StartTime = 1, StopTime = Seconds (simulationTime cfg + 1)\<rparr>) [0, 1, 2, 3]"
  by (simp add: clientApp1_v1_def myClient_v1_def InstallAll_def Install_def Start_def Stop_def
      UdpClientHelper_def SetAttribute_def wifiStaNodes_eq upt_rec Get_def ApInterface_eq)

lemma length_applications_v1: "length (applications (main_v1 cfg received)) = 13"
  using arg_cong [OF schedule_v1 [of cfg received], of length] by simp

text \<open>
  Claim C4 at the first variant of simple-ht-hidden-stations.cc, for every command line.
  The access point has one interface, index 0. The client helper of the saturating flow
  takes its destination from index 1, which was never assigned: an unchecked access out of
  range, the first violated precondition of \<^verbatim>\<open>main\<close>, and the helper is left without a
  destination. hiddenstations3.cc takes the destination of its flows from index 0, the
  address of the access point.
\<close>

theorem unassigned_destination_address:
  "length ApInterface = 1
   \<and> map (Get ApInterface) [0, 1, 2, 3, 4] = [Some (192, 168, 1, 5), None, None, None, None]
   \<and> map_of (attributes (myClient_v1 cfg)) ''RemoteAddress'' = Some (AddressValue None)
   \<and> take 1 (violations (main_v1 cfg received)) = [IndexOutOfRange ''ApInterface'' 1 1]
   \<and> map_of (attributes (myClient_hs3 cfg 9)) ''RemoteAddress''
       = Some (AddressValue (Some (192, 168, 1, 5)))"
  by (simp add: ApInterface_eq Get_def myClient_v1_def myClient_hs3_def UdpClientHelper_def
      UdpEchoClientHelper_def SetAttribute_def main_v1_def violations_v1_eq)

subsection \<open>Report lines\<close>

lemma violations_hs3_eq: "violations_hs3 = []"
  by (simp add: violations_hs3_def index_check_def ApInterface_eq
      wifiApNode_eq wifiStaNodes_eq staDevices_eq apDevice_eq InstallAll_def Install_def)

lemma applications_hs3:
  "map (\<lambda>a. (app_type a, app_node a, map_of (app_attributes a) ''MaxPackets''))
       (applications (main_hs3 cfg events)) =
     [(UdpEchoServer, Some 4, None), (UdpEchoServer, Some 4, None),
      (UdpEchoServer, Some 4, None), (UdpEchoServer, Some 4, None),
      (UdpEchoClient, Some 0, Some (UintegerValue 3)),
      (UdpEchoClient, Some 1, Some (UintegerValue 3)),
      (UdpEchoClient, Some 2, Some (UintegerValue 3)),
      (UdpEchoClient, Some 3, Some (UintegerValue 3))]"
  by (simp add: main_hs3_def Config_Set_UdpEchoClient_def serverApp_hs3_def serverApp2_hs3_def
      serverApp3_hs3_def serverApp4_hs3_def clientApp1_hs3_def clientApp2_hs3_def
      clientApp3_hs3_def clientApp4_hs3_def myServer_hs3_def myClient_hs3_def
      UdpEchoServerHelper_def UdpEchoClientHelper_def SetAttribute_def ApplicationContainer_def
      InstallAll_def Install_def Start_def Stop_def Get_def wifiApNode_eq wifiStaNodes_eq upt_rec)

lemma throughput_line_RxTrace: "filter throughput_line (RxTrace e) = []"
  by (cases e) (simp add: RxTrace_def)

lemma throughput_line_trace: "filter throughput_line (concat (map RxTrace events)) = []"
  by (induction events) (simp_all add: throughput_line_RxTrace)

text \<open>
  hiddenstations3.cc violates no precondition; what it prints is what the trace callback
  writes during the run, and none of these lines is a throughput line.
\<close>

lemma cout_hs3: "cout (main_hs3 cfg events) = concat (map RxTrace events)"
  by (simp add: main_hs3_def violations_hs3_eq printed_def)

lemma cout_hs3_no_throughput_line: "filter throughput_line (cout (main_hs3 cfg events)) = []"
  by (simp add: cout_hs3 throughput_line_trace)

text \<open>
  In hiddenstations2.cc the text of the first report has no blank before \<open>Throughput\<close>.
\<close>

lemma report_hs2_form:
  "map throughput_line (report_hs2 cfg (Some n1) (Some n2) (Some n3) (Some n4))
     = [False, True, True, True]"
  by (simp add: report_hs2_def report_def)

text \<open>
  Claim C5 at the first variant of simple-ht-hidden-stations.cc, for every command line.
  Given four counter values, the four report statements print four lines of the form of
  the claim, labelled \<^verbatim>\<open>ServerApp1\<close> to \<^verbatim>\<open>ServerApp4\<close> in the order of declaration. But
  none of the four reads gives a value: each goes through the null pointer, so the
  statements have nothing to print.
\<close>

theorem report_without_values:
  "report_v1 cfg (Some n1) (Some n2) (Some n3) (Some n4) =
     [[Str ''ServerApp1 Throughput: '',
       Dbl (throughput n1 (payloadSize cfg) (simulationTime cfg)), Str '' Mbit/s''],
      [Str ''ServerApp2 Throughput: '',
       Dbl (throughput n2 (payloadSize cfg) (simulationTime cfg)), Str '' Mbit/s''],
      [Str ''ServerApp3 Throughput: '',
       Dbl (throughput n3 (payloadSize cfg) (simulationTime cfg)), Str '' Mbit/s''],
      [Str ''ServerApp4 Throughput: '',
       Dbl (throughput n4 (payloadSize cfg) (simulationTime cfg)), Str '' Mbit/s'']]
   \<and> map throughput_line (report_v1 cfg (Some n1) (Some n2) (Some n3) (Some n4))
       = [True, True, True, True]
   \<and> [totalPacketsThrough1_v1 received, totalPacketsThrough2_v1 received,
       totalPacketsThrough3_v1 received, totalPacketsThrough4_v1 received]
       = [None, None, None, None]"
  by (simp add: report_v1_def report_def totalPacketsThrough_v1_eq)

subsection \<open>Echo flows\<close>

text \<open>
  What the scripts fix for the echo clients. In the first variant of
  simple-ht-hidden-stations.cc every echo client has a budget of one packet and sends to
  the address of the station it is installed on; the fourth has neither a node nor a
  destination. In hiddenstations3.cc every echo client ends with a budget of three packets,
  whatever \<open>nPackets\<close> is; the servers listen on port 9, the clients send to the ports 9,
  10, 11 and 12. How many packets are sent, delivered and answered is decided by the run.
\<close>

lemma echo_clients_v1:
  "map (\<lambda>a. (app_type a, app_node a, map_of (app_attributes a) ''RemoteAddress'',
              map_of (app_attributes a) ''MaxPackets''))
       (clientApps1_v1 @ clientApps2_v1 @ clientApps3_v1 @ clientApps4_v1) =
     [(UdpEchoClient, Some 1, Some (AddressValue (Some (192, 168, 1, 2))), Some (UintegerValue 1)),
      (UdpEchoClient, Some 2, Some (AddressValue (Some (192, 168, 1, 3))), Some (UintegerValue 1)),
      (UdpEchoClient, Some 3, Some (AddressValue (Some (192, 168, 1, 4))), Some (UintegerValue 1)),
      (UdpEchoClient, None, Some (AddressValue None), Some (UintegerValue 1))]"
  by (simp add: clientApps1_v1_def clientApps2_v1_def clientApps3_v1_def clientApps4_v1_def
      echoClient_v1_def UdpEchoClientHelper_def SetAttribute_def Install_def Start_def Stop_def
      Get_def wifiStaNodes_eq StaInterface_eq)

lemma ports_hs3:
  "map (\<lambda>a. (app_type a, map_of (app_attributes a) ''Port'',
              map_of (app_attributes a) ''RemotePort''))
       (applications (main_hs3 cfg events)) =
     [(UdpEchoServer, Some (UintegerValue 9), None),
      (UdpEchoServer, Some (UintegerValue 9), None),
      (UdpEchoServer, Some (UintegerValue 9), None),
      (UdpEchoServer, Some (UintegerValue 9), None),
      (UdpEchoClient, None, Some (UintegerValue 9)),
      (UdpEchoClient, None, Some (UintegerValue 10)),
      (UdpEchoClient, None, Some (UintegerValue 11)),
      (UdpEchoClient, None, Some (UintegerValue 12))]"
  by (simp add: main_hs3_def Config_Set_UdpEchoClient_def serverApp_hs3_def serverApp2_hs3_def
      serverApp3_hs3_def serverApp4_hs3_def clientApp1_hs3_def clientApp2_hs3_def
      clientApp3_hs3_def clientApp4_hs3_def myServer_hs3_def myClient_hs3_def
      UdpEchoServerHelper_def UdpEchoClientHelper_def SetAttribute_def ApplicationContainer_def
      InstallAll_def Install_def Start_def Stop_def Get_def wifiApNode_eq wifiStaNodes_eq upt_rec)

end
